theory Spec2Isabelle
  imports Complex_Main "HOL-Library.Sublist" "HOL-Library.AList"
begin

section \<open>Python values and exceptions\<close>

text \<open>
  The SDK handles what \<^verbatim>\<open>response.json()\<close> returns: \<^verbatim>\<open>None\<close>, booleans, integers,
  strings, lists and dictionaries with string keys. A Python \<^verbatim>\<open>str\<close> is represented by its
  UTF-8 encoding, one \<open>char\<close> per byte; a dictionary is an association list in insertion
  order. JSON numbers are the integers (the fields the SDK reads, such as
  \<^verbatim>\<open>total_changes\<close>, are counts).
\<close>

datatype pyval =
    PNone
  | PBool bool
  | PInt int
  | PStr string
  | PList "pyval list"
  | PDict "(string \<times> pyval) list"

type_synonym dict = "(string \<times> pyval) list"

text \<open>
  The exception classes of \<^verbatim>\<open>monibags/exceptions.py\<close>, those of \<^verbatim>\<open>requests\<close> that the SDK
  tells apart (\<open>Timeout\<close> and its parent \<open>RequestException\<close>), the built-in ones
  that the SDK's own operations and the calls it makes raise (\<open>OSError\<close> stands for
  its subclasses too, such as \<^verbatim>\<open>FileNotFoundError\<close>), and \<open>OtherException\<close> for any
  further subclass of \<^verbatim>\<open>Exception\<close>. An exception carries its class and \<^verbatim>\<open>str(e)\<close>.
\<close>

datatype exc_class =
    MoniBagsException
  | RateLimitError
  | APIError
  | Timeout
  | RequestException
  | TypeError
  | AttributeError
  | ValueError
  | OSError
  | OtherException

datatype py_exception = Exc (cls: exc_class) (msg: string)

fun is_Timeout :: "exc_class \<Rightarrow> bool" where
  "is_Timeout Timeout = True"
| "is_Timeout _ = False"

fun is_RequestException :: "exc_class \<Rightarrow> bool" where
  "is_RequestException Timeout = True"
| "is_RequestException RequestException = True"
| "is_RequestException _ = False"

subsection \<open>Built-in operations\<close>

fun type_name :: "pyval \<Rightarrow> string" where
  "type_name PNone = ''NoneType''"
| "type_name (PBool _) = ''bool''"
| "type_name (PInt _) = ''int''"
| "type_name (PStr _) = ''str''"
| "type_name (PList _) = ''list''"
| "type_name (PDict _) = ''dict''"

fun truthy :: "pyval \<Rightarrow> bool" where
  "truthy PNone = False"
| "truthy (PBool b) = b"
| "truthy (PInt i) = (i \<noteq> 0)"
| "truthy (PStr s) = (s \<noteq> [])"
| "truthy (PList xs) = (xs \<noteq> [])"
| "truthy (PDict kvs) = (kvs \<noteq> [])"

text \<open>\<^verbatim>\<open>d.get(key, default)\<close> on a dictionary.\<close>

definition dict_get :: "dict \<Rightarrow> string \<Rightarrow> pyval \<Rightarrow> pyval" where
  "dict_get d key dflt = (case map_of d key of Some v \<Rightarrow> v | None \<Rightarrow> dflt)"

text \<open>\<^verbatim>\<open>s.lstrip(chars)\<close> and \<^verbatim>\<open>s.rstrip(chars)\<close>: every leading (trailing) character that
  occurs in \<open>chars\<close> goes.\<close>

definition lstrip :: "string \<Rightarrow> string \<Rightarrow> string" where
  "lstrip chars s = dropWhile (\<lambda>c. c \<in> set chars) s"

definition rstrip :: "string \<Rightarrow> string \<Rightarrow> string" where
  "rstrip chars s = rev (dropWhile (\<lambda>c. c \<in> set chars) (rev s))"

text \<open>Decimal rendering of an integer, as an f-string does it.\<close>

fun str_nat :: "nat \<Rightarrow> string" where
  "str_nat n =
     (if n < 10 then [''0123456789'' ! n]
      else str_nat (n div 10) @ [''0123456789'' ! (n mod 10)])"

declare str_nat.simps [simp del]

definition str_int :: "int \<Rightarrow> string" where
  "str_int i = (if i < 0 then ''-'' @ str_nat (nat (- i)) else str_nat (nat i))"

text \<open>\<^verbatim>\<open>obj[key] = value\<close> with a string key: only a dictionary takes it.\<close>

fun setitem :: "pyval \<Rightarrow> string \<Rightarrow> pyval \<Rightarrow> py_exception + dict" where
  "setitem (PDict d) key v = Inr (AList.update key v d)"
| "setitem (PList _) key v =
     Inl (Exc TypeError ''list indices must be integers or slices, not str'')"
| "setitem obj key v =
     Inl (Exc TypeError
       ([CHR 0x27] @ type_name obj @ [CHR 0x27] @ '' object does not support item assignment''))"

section \<open>The world outside the SDK\<close>

datatype http_method = GET | POST

record request =
  req_method :: http_method
  req_url :: string
  req_headers :: "(string \<times> string) list"
  req_json :: "pyval option"
  req_timeout :: int

text \<open>
  A response has a status code and a body text; \<open>json\<close> is what \<^verbatim>\<open>response.json()\<close>
  does on it: it returns the decoded body or raises.
\<close>

record response =
  status_code :: int
  "text" :: string
  json :: "py_exception + pyval"

text \<open>
  What the SDK does to the outside, in order: lines handed to \<^verbatim>\<open>print\<close>, requests
  sent, calls of the progress callback with its three arguments, and sleeps that have
  been slept, with their length in seconds.
\<close>

datatype event =
    Printed string
  | Sent request
  | Called nat nat string
  | Slept real

fun is_Slept :: "event \<Rightarrow> bool" where
  "is_Slept (Slept _) = True"
| "is_Slept _ = False"

fun is_Sent :: "event \<Rightarrow> bool" where
  "is_Sent (Sent _) = True"
| "is_Sent _ = False"

text \<open>
  The environment answers a request, by a response or by an exception of the transport,
  and tells the time (\<^verbatim>\<open>datetime.now().isoformat()\<close>). It also says whether
  \<^verbatim>\<open>print\<close> of a line raises (a closed pipe, a character the terminal cannot encode)
  and whether a sleep of a length that is not negative raises (a length too large for
  the platform). All of it may depend on everything that happened before, so the remote
  service can answer each call differently.
\<close>

record env =
  net :: "event list \<Rightarrow> request \<Rightarrow> py_exception + response"
  now :: "event list \<Rightarrow> string"
  print_raises :: "event list \<Rightarrow> string \<Rightarrow> py_exception option"
  sleep_raises :: "event list \<Rightarrow> real \<Rightarrow> py_exception option"

text \<open>\<^verbatim>\<open>time.sleep(secs)\<close>: a negative length is refused.\<close>

definition time_sleep :: "env \<Rightarrow> event list \<Rightarrow> real \<Rightarrow> py_exception option" where
  "time_sleep env tr secs =
     (if secs < 0 then Some (Exc ValueError ''sleep length must be non-negative'')
      else sleep_raises env tr secs)"

text \<open>
  The progress callback is the caller's code: given what happened so far and its three
  arguments, it returns or raises.
\<close>

type_synonym callback = "event list \<Rightarrow> nat \<Rightarrow> nat \<Rightarrow> string \<Rightarrow> py_exception option"


section \<open>The SDK\<close>

record sdk =
  base_url :: string
  session_headers :: "(string \<times> string) list"

definition init :: "string \<Rightarrow> sdk" where
  "init url =
     \<lparr>base_url = rstrip ''/'' url,
      session_headers =
        [(''Content-Type'', ''application/json''), (''User-Agent'', ''MoniBags-SDK/1.0'')]\<rparr>"

text \<open>\<^verbatim>\<open>self.session.post(f"{self.base_url}{path}", json={'username': username}, timeout=timeout)\<close>\<close>

definition post_request :: "sdk \<Rightarrow> string \<Rightarrow> string \<Rightarrow> int \<Rightarrow> request" where
  "post_request self path username timeout =
     \<lparr>req_method = POST,
      req_url = base_url self @ path,
      req_headers = session_headers self,
      req_json = Some (PDict [(''username'', PStr username)]),
      req_timeout = timeout\<rparr>"

text \<open>
  Each method takes the events so far and returns what it returns or raises (\<open>Inl\<close> the
  exception) together with the events extended by its own.
\<close>

definition check_username_history ::
  "sdk \<Rightarrow> env \<Rightarrow> event list \<Rightarrow> string \<Rightarrow> int
     \<Rightarrow> (py_exception + pyval) \<times> event list" where
  "check_username_history self env tr username timeout =
     (let username = lstrip ''@'' username;
          req = post_request self ''/api/check-username-history'' username timeout;
          body =
            (case net env tr req of
               Inl e \<Rightarrow> Inl e
             | Inr response \<Rightarrow>
                 if status_code response = 429 then
                   Inl (Exc RateLimitError
                     ''Rate limit exceeded. Please wait before making another request.'')
                 else if status_code response = 200 then json response
                 else
                   Inl (Exc APIError
                     (''API returned status code '' @ str_int (status_code response) @
                      '': '' @ text response)))
      in (case body of
            Inr v \<Rightarrow> Inr v
          | Inl e \<Rightarrow>
              if is_Timeout (cls e) then
                Inl (Exc MoniBagsException
                  (''Request timed out after '' @ str_int timeout @ '' seconds''))
              else if is_RequestException (cls e) then
                Inl (Exc MoniBagsException (''Request failed: '' @ msg e))
              else Inl e,
          tr @ [Sent req]))"

definition analyze_profile ::
  "sdk \<Rightarrow> env \<Rightarrow> event list \<Rightarrow> string \<Rightarrow> int
     \<Rightarrow> (py_exception + pyval) \<times> event list" where
  "analyze_profile self env tr username timeout =
     (let username = lstrip ''@'' username;
          req = post_request self ''/api/analyze'' username timeout;
          body =
            (case net env tr req of
               Inl e \<Rightarrow> Inl e
             | Inr response \<Rightarrow>
                 if status_code response = 429 then
                   Inl (Exc RateLimitError ''Rate limit exceeded'')
                 else if status_code response = 200 then json response
                 else
                   Inl (Exc APIError
                     (''API returned status code '' @ str_int (status_code response))))
      in (case body of
            Inr v \<Rightarrow> Inr v
          | Inl e \<Rightarrow>
              if is_RequestException (cls e) then
                Inl (Exc MoniBagsException (''Request failed: '' @ msg e))
              else Inl e,
          tr @ [Sent req]))"

subsection \<open>Batch checking\<close>

text \<open>
  The progress notification at the head of the loop body: the events it adds (the call of
  the callback or of \<^verbatim>\<open>print\<close>), and whether it raises.
\<close>

definition progress_line :: "nat \<Rightarrow> nat \<Rightarrow> string \<Rightarrow> string" where
  "progress_line i total' username =
     ''Checking '' @ str_nat (i + 1) @ ''/'' @ str_nat total' @ '': @'' @ username"

definition notify :: "callback option \<Rightarrow> nat \<Rightarrow> nat \<Rightarrow> string \<Rightarrow> event list" where
  "notify progress_callback i total' username =
     (case progress_callback of
        Some cb \<Rightarrow> [Called (i + 1) total' username]
      | None \<Rightarrow> [Printed (progress_line i total' username)])"

definition notify_raises ::
  "env \<Rightarrow> callback option \<Rightarrow> event list \<Rightarrow> nat \<Rightarrow> nat \<Rightarrow> string \<Rightarrow> py_exception option" where
  "notify_raises env progress_callback tr i total' username =
     (case progress_callback of
        Some cb \<Rightarrow> cb tr (i + 1) total' username
      | None \<Rightarrow> print_raises env tr (progress_line i total' username))"

text \<open>The record that the \<^verbatim>\<open>except Exception as e\<close> branch appends.\<close>

definition failure_record :: "string \<Rightarrow> py_exception \<Rightarrow> string \<Rightarrow> dict" where
  "failure_record username e timestamp =
     [(''username'', PStr username),
      (''success'', PBool False),
      (''error'', PStr (msg e)),
      (''timestamp'', PStr timestamp)]"

text \<open>
  The \<^verbatim>\<open>try\<close> statement of the loop body, run on the events so far: the record it
  appends to the results, and the events after it. The \<^verbatim>\<open>try\<close> block is the check
  (with the default timeout) and the two item assignments; the first assignment raises
  when the decoded body is not a dictionary. Whatever is raised, the handler appends the
  failure record.
\<close>

definition checked_entry ::
  "sdk \<Rightarrow> env \<Rightarrow> event list \<Rightarrow> string \<Rightarrow> dict \<times> event list" where
  "checked_entry self env tr username =
     (let (checked, tr1) = check_username_history self env tr username 30;
          tried =
            (case checked of
               Inl e \<Rightarrow> Inl e
             | Inr result \<Rightarrow>
                 (case setitem result ''username'' (PStr username) of
                    Inl e \<Rightarrow> Inl e
                  | Inr d \<Rightarrow> Inr (AList.update ''timestamp'' (PStr (now env tr1)) d)))
      in (case tried of
            Inr d \<Rightarrow> d
          | Inl e \<Rightarrow> failure_record username e (now env tr1),
          tr1))"

text \<open>
  One pass of the loop body, from the results and events so far, at index \<open>i\<close>. The
  notification and the sleep stand outside the \<^verbatim>\<open>try\<close>: what they raise leaves the
  loop and \<open>batch_check\<close>.
\<close>

definition batch_iteration ::
  "sdk \<Rightarrow> env \<Rightarrow> real \<Rightarrow> callback option \<Rightarrow> nat
     \<Rightarrow> dict list \<times> event list \<Rightarrow> nat \<times> string
     \<Rightarrow> (py_exception + dict list) \<times> event list" where
  "batch_iteration self env delay progress_callback total' st iu =
     (let (results, tr) = st;
          (i, username) = iu;
          tr1 = tr @ notify progress_callback i total' username
      in (case notify_raises env progress_callback tr i total' username of
            Some e \<Rightarrow> (Inl e, tr1)
          | None \<Rightarrow>
              (let (entry, tr2) = checked_entry self env tr1 username;
                   results1 = results @ [entry]
               in if int i < int total' - 1 then
                    (case time_sleep env tr2 delay of
                       Some e \<Rightarrow> (Inl e, tr2)
                     | None \<Rightarrow> (Inr results1, tr2 @ [Slept delay]))
                  else (Inr results1, tr2))))"

text \<open>The \<^verbatim>\<open>for\<close> loop over \<^verbatim>\<open>enumerate(usernames)\<close>, left by the first exception.\<close>

fun batch_loop ::
  "sdk \<Rightarrow> env \<Rightarrow> real \<Rightarrow> callback option \<Rightarrow> nat \<Rightarrow> (nat \<times> string) list
     \<Rightarrow> dict list \<times> event list \<Rightarrow> (py_exception + dict list) \<times> event list" where
  "batch_loop self env delay progress_callback total' [] st = (Inr (fst st), snd st)"
| "batch_loop self env delay progress_callback total' (iu # rest) st =
     (case batch_iteration self env delay progress_callback total' st iu of
        (Inl e, tr) \<Rightarrow> (Inl e, tr)
      | (Inr results, tr) \<Rightarrow>
          batch_loop self env delay progress_callback total' rest (results, tr))"

definition batch_check ::
  "sdk \<Rightarrow> env \<Rightarrow> event list \<Rightarrow> string list \<Rightarrow> real \<Rightarrow> callback option
     \<Rightarrow> (py_exception + dict list) \<times> event list" where
  "batch_check self env tr usernames delay progress_callback =
     (let results = [];
          total' = length usernames
      in batch_loop self env delay progress_callback total' (List.enumerate 0 usernames)
           (results, tr))"

subsection \<open>Rate limit status\<close>

text \<open>\<^verbatim>\<open>self.session.get(f"{self.base_url}/api/rate-limit", timeout=10)\<close>\<close>

definition rate_limit_request :: "sdk \<Rightarrow> request" where
  "rate_limit_request self =
     \<lparr>req_method = GET,
      req_url = base_url self @ ''/api/rate-limit'',
      req_headers = session_headers self,
      req_json = None,
      req_timeout = 10\<rparr>"

definition get_rate_limit_status ::
  "sdk \<Rightarrow> env \<Rightarrow> event list
     \<Rightarrow> (py_exception + pyval) \<times> event list" where
  "get_rate_limit_status self env tr =
     (let req = rate_limit_request self;
          body =
            (case net env tr req of
               Inl e \<Rightarrow> Inl e
             | Inr response \<Rightarrow>
                 if status_code response = 200 then json response
                 else Inr (PDict [(''error'', PStr ''Failed to get rate limit status'')]))
      in (case body of
            Inr v \<Rightarrow> Inr v
          | Inl e \<Rightarrow> Inr (PDict [(''error'', PStr (msg e))]),
          tr @ [Sent req]))"

subsection \<open>Formatting\<close>

definition quoted :: "string \<Rightarrow> string" where
  "quoted s = [CHR 0x27] @ s @ [CHR 0x27]"

text \<open>\<^verbatim>\<open>sep.join(parts)\<close> on a list of strings.\<close>

fun join :: "string \<Rightarrow> string list \<Rightarrow> string" where
  "join sep [] = []"
| "join sep [s] = s"
| "join sep (s # t # rest) = s @ sep @ join sep (t # rest)"

text \<open>The characters of a string: each UTF-8 lead byte with its continuation bytes.\<close>

definition is_continuation :: "char \<Rightarrow> bool" where
  "is_continuation b = (128 \<le> (of_char b :: nat) \<and> (of_char b :: nat) < 192)"

function utf8_chars :: "string \<Rightarrow> string list" where
  "utf8_chars [] = []"
| "utf8_chars (c # cs) =
     (c # takeWhile is_continuation cs) # utf8_chars (dropWhile is_continuation cs)"
  by pat_completeness auto
termination
  by (relation "measure length") (auto simp: less_Suc_eq_le length_dropWhile_le)

text \<open>\<^verbatim>\<open>for item in obj\<close>: the items of a list, the characters of a string, the keys of a
  dictionary; anything else is not iterable.\<close>

fun py_iter :: "pyval \<Rightarrow> py_exception + pyval list" where
  "py_iter (PList xs) = Inr xs"
| "py_iter (PStr s) = Inr (map PStr (utf8_chars s))"
| "py_iter (PDict d) = Inr (map (\<lambda>kv. PStr (fst kv)) d)"
| "py_iter obj = Inl (Exc TypeError (quoted (type_name obj) @ '' object is not iterable''))"

text \<open>
  \<^verbatim>\<open>str(obj)\<close>, which is what an f-string puts in. For a list or a dictionary Python prints
  the \<^verbatim>\<open>repr\<close> of the members, which quotes and escapes strings by the Unicode tables;
  that rendering is the parameter \<open>repr\<close>.
\<close>

fun py_str :: "(pyval \<Rightarrow> string) \<Rightarrow> pyval \<Rightarrow> string" where
  "py_str repr PNone = ''None''"
| "py_str repr (PBool b) = (if b then ''True'' else ''False'')"
| "py_str repr (PInt i) = str_int i"
| "py_str repr (PStr s) = s"
| "py_str repr obj = repr obj"

text \<open>\<^verbatim>\<open>obj > n\<close> for an integer \<open>n\<close>: integers and booleans compare, nothing else does.\<close>

fun py_gt :: "pyval \<Rightarrow> int \<Rightarrow> py_exception + bool" where
  "py_gt (PInt i) n = Inr (i > n)"
| "py_gt (PBool b) n = Inr ((if b then 1 else 0) > n)"
| "py_gt obj n =
     Inl (Exc TypeError
       (quoted ''>'' @ '' not supported between instances of '' @ quoted (type_name obj) @
        '' and '' @ quoted ''int''))"

definition rule_line :: string where
  "rule_line = replicate 50 (CHR ''='')"

definition newline :: string where
  "newline = [CHR 0x0A]"

text \<open>The three literals of the source that are not ASCII, in UTF-8: the check mark
  U+2705, the warning sign U+26A0 U+FE0F and the bullet U+2022.\<close>

definition check_mark :: string where
  "check_mark = [CHR 0xE2, CHR 0x9C, CHR 0x85]"

definition warning_sign :: string where
  "warning_sign = [CHR 0xE2, CHR 0x9A, CHR 0xA0, CHR 0xEF, CHR 0xB8, CHR 0x8F]"

definition bullet :: string where
  "bullet = [CHR 0xE2, CHR 0x80, CHR 0xA2]"

text \<open>
  \<open>format_result\<close>. The first \<^verbatim>\<open>data.get\<close> raises when \<open>data\<close> is not a dictionary;
  once it has passed, the later ones cannot.
\<close>

definition format_result :: "(pyval \<Rightarrow> string) \<Rightarrow> dict \<Rightarrow> py_exception + string" where
  "format_result repr result =
     (let output = [rule_line];
          body =
            (if truthy (dict_get result ''success'' PNone) then
               (case dict_get result ''data'' (PDict []) of
                  PDict data \<Rightarrow>
                    (let output = output @
                           [''Username: @'' @
                            py_str repr (dict_get data ''current_username'' (PStr ''unknown''))];
                         output = output @
                           [''Status: '' @
                            (if truthy (dict_get data ''is_clean'' PNone)
                             then ''CLEAN '' @ check_mark
                             else ''CHANGES DETECTED '' @ warning_sign)]
                     in (case py_gt (dict_get data ''total_changes'' (PInt 0)) 0 of
                           Inl e \<Rightarrow> Inl e
                         | Inr changed \<Rightarrow>
                             (case
                                (if changed then
                                   (case py_iter (dict_get data ''history'' (PList [])) of
                                      Inl e \<Rightarrow> Inl e
                                    | Inr items \<Rightarrow>
                                        Inr (output @
                                          [''Total Changes: '' @
                                           py_str repr (dict_get data ''total_changes'' (PInt 0)),
                                           newline @ ''Previous Usernames:''] @
                                          map (\<lambda>item. ''  '' @ bullet @ '' '' @ py_str repr item)
                                            items))
                                 else Inr output)
                              of
                                Inl e \<Rightarrow> Inl e
                              | Inr output \<Rightarrow>
                                  (let insights = dict_get data ''insights'' (PList [])
                                   in if truthy insights then
                                        (case py_iter insights of
                                           Inl e \<Rightarrow> Inl e
                                         | Inr items \<Rightarrow>
                                             Inr (output @ [newline @ ''Insights:''] @
                                               map (\<lambda>insight. ''  '' @ py_str repr insight)
                                                 items))
                                      else Inr output))))
                | other \<Rightarrow>
                    Inl (Exc AttributeError
                      (quoted (type_name other) @ '' object has no attribute '' @
                       quoted ''get'')))
             else
               (let output = output @
                      [''Error: '' @
                       py_str repr (dict_get result ''error'' (PStr ''Unknown error''))];
                    output =
                      (if truthy (dict_get result ''message'' PNone)
                       then output @
                         [''Message: '' @ py_str repr (dict_get result ''message'' PNone)]
                       else output)
                in Inr output))
      in (case body of
            Inl e \<Rightarrow> Inl e
          | Inr output \<Rightarrow> Inr (join newline (output @ [rule_line]))))"

subsection \<open>Export\<close>

text \<open>
  A file holds what was written to it since it was opened for writing: one
  \<^verbatim>\<open>json.dump\<close> of a value with its indent, or the header and the rows that a
  \<^verbatim>\<open>csv.DictWriter\<close> was given. A file with nothing written is empty. The world of
  \<open>export_results\<close> is the files by name, the lines printed, and what the system says
  to \<^verbatim>\<open>open(filename, 'w')\<close> of a name (a missing directory, a directory, no
  permission) and to \<^verbatim>\<open>print\<close> of a line. Writing to a file that has been opened,
  and closing it, are taken to succeed.
\<close>

datatype written =
    JsonDump "dict list" nat
  | CsvHeader "string list"
  | CsvRow "(string \<times> pyval) list"

record world =
  files :: "string \<Rightarrow> written list option"
  stdout :: "string list"
  open_raises :: "string \<Rightarrow> py_exception option"
  stdout_raises :: "string \<Rightarrow> py_exception option"

text \<open>\<^verbatim>\<open>sep.join(obj)\<close> on a decoded value: every item has to be a string.\<close>

fun str_items :: "nat \<Rightarrow> pyval list \<Rightarrow> py_exception + string list" where
  "str_items i [] = Inr []"
| "str_items i (PStr s # rest) =
     (case str_items (i + 1) rest of Inl e \<Rightarrow> Inl e | Inr ss \<Rightarrow> Inr (s # ss))"
| "str_items i (obj # rest) =
     Inl (Exc TypeError
       (''sequence item '' @ str_nat i @ '': expected str instance, '' @ type_name obj @
        '' found''))"

definition py_join :: "string \<Rightarrow> pyval \<Rightarrow> py_exception + string" where
  "py_join sep obj =
     (case py_iter obj of
        Inl e \<Rightarrow> Inl (Exc TypeError ''can only join an iterable'')
      | Inr items \<Rightarrow>
          (case str_items 0 items of Inl e \<Rightarrow> Inl e | Inr ss \<Rightarrow> Inr (join sep ss)))"

definition fieldnames :: "string list" where
  "fieldnames = [''username'', ''is_clean'', ''total_changes'', ''history'', ''timestamp'']"

text \<open>The dictionary handed to \<^verbatim>\<open>writer.writerow\<close> for one result.\<close>

definition csv_row :: "dict \<Rightarrow> py_exception + (string \<times> pyval) list" where
  "csv_row result =
     (case dict_get result ''data'' (PDict []) of
        PDict data \<Rightarrow>
          (case py_join '', '' (dict_get data ''history'' (PList [])) of
             Inl e \<Rightarrow> Inl e
           | Inr history \<Rightarrow>
               Inr [(''username'', dict_get result ''username'' (PStr [])),
                    (''is_clean'', dict_get data ''is_clean'' (PStr [])),
                    (''total_changes'', dict_get data ''total_changes'' (PInt 0)),
                    (''history'', PStr history),
                    (''timestamp'', dict_get result ''timestamp'' (PStr []))])
      | other \<Rightarrow>
          Inl (Exc AttributeError
            (quoted (type_name other) @ '' object has no attribute '' @ quoted ''get'')))"

text \<open>The loop over the results, appending to the open file until a row raises.\<close>

fun write_rows :: "dict list \<Rightarrow> written list \<Rightarrow> py_exception option \<times> written list" where
  "write_rows [] f = (None, f)"
| "write_rows (result # rest) f =
     (if truthy (dict_get result ''success'' PNone) then
        (case csv_row result of
           Inl e \<Rightarrow> (Some e, f)
         | Inr row \<Rightarrow> write_rows rest (f @ [CsvRow row]))
      else write_rows rest f)"

text \<open>The \<^verbatim>\<open>print\<close> that ends \<open>export_results\<close>.\<close>

definition print_exported :: "string \<Rightarrow> world \<Rightarrow> (py_exception + unit) \<times> world" where
  "print_exported filename w =
     (case stdout_raises w (''Results exported to '' @ filename) of
        Some e \<Rightarrow> (Inl e, w)
      | None \<Rightarrow> (Inr (), w\<lparr>stdout := stdout w @ [''Results exported to '' @ filename]\<rparr>))"

definition export_results ::
  "dict list \<Rightarrow> string \<Rightarrow> string \<Rightarrow> world \<Rightarrow> (py_exception + unit) \<times> world" where
  "export_results results filename format w =
     (if format = ''json'' then
        (case open_raises w filename of
           Some e \<Rightarrow> (Inl e, w)
         | None \<Rightarrow>
             print_exported filename
               (w\<lparr>files := (files w)(filename \<mapsto> [JsonDump results 2])\<rparr>))
      else if format = ''csv'' then
        (case open_raises w filename of
           Some e \<Rightarrow> (Inl e, w)
         | None \<Rightarrow>
             (let (raised, f) =
                    (if results \<noteq> [] then write_rows results [CsvHeader fieldnames]
                     else (None, []))
              in (case raised of
                    Some e \<Rightarrow> (Inl e, w\<lparr>files := (files w)(filename \<mapsto> f)\<rparr>)
                  | None \<Rightarrow>
                      print_exported filename (w\<lparr>files := (files w)(filename \<mapsto> f)\<rparr>))))
      else (Inl (Exc ValueError (''Unsupported format: '' @ format)), w))"

section \<open>Concrete services for the examples\<close>

text \<open>The SDK as \<^verbatim>\<open>MoniBagsSDK()\<close> constructs it.\<close>

definition default_sdk :: sdk where
  "default_sdk = init ''https://monibags.xyz''"

text \<open>
  A service that gives the same answer to every request, one whose transport raises the
  same exception on every request, and one that works through a script, one entry per
  request sent so far, and refuses the connection when the script is over.
\<close>

definition answering :: "response \<Rightarrow> env" where
  "answering r =
     \<lparr>net = (\<lambda>tr req. Inr r),
      now = (\<lambda>tr. ''2024-05-01T12:00:00''),
      print_raises = (\<lambda>tr line. None),
      sleep_raises = (\<lambda>tr secs. None)\<rparr>"

definition failing :: "py_exception \<Rightarrow> env" where
  "failing e =
     \<lparr>net = (\<lambda>tr req. Inl e),
      now = (\<lambda>tr. ''2024-05-01T12:00:00''),
      print_raises = (\<lambda>tr line. None),
      sleep_raises = (\<lambda>tr secs. None)\<rparr>"

definition scripted :: "(py_exception + response) list \<Rightarrow> env" where
  "scripted script =
     \<lparr>net = (\<lambda>tr req.
        (let k = length (filter is_Sent tr)
         in if k < length script then script ! k
            else Inl (Exc RequestException ''Connection refused''))),
      now = (\<lambda>tr. ''2024-05-01T12:00:0'' @ str_nat (length (filter is_Sent tr))),
      print_raises = (\<lambda>tr line. None),
      sleep_raises = (\<lambda>tr secs. None)\<rparr>"

definition clean_body :: "string \<Rightarrow> pyval" where
  "clean_body name =
     PDict [(''success'', PBool True),
            (''data'', PDict [(''current_username'', PStr name),
                              (''is_clean'', PBool True),
                              (''total_changes'', PInt 0),
                              (''history'', PList []),
                              (''insights'', PList [])])]"

definition respond :: "int \<Rightarrow> string \<Rightarrow> py_exception + pyval \<Rightarrow> response" where
  "respond code body decoded = \<lparr>status_code = code, text = body, json = decoded\<rparr>"

definition two_answers :: "(py_exception + response) list" where
  "two_answers =
     [Inr (respond 200 ''{}'' (Inr (clean_body ''alice''))),
      Inr (respond 500 ''oops'' (Inr PNone))]"

text \<open>The two results of a batch over \<open>alice\<close> and \<open>@bob\<close> against \<open>two_answers\<close>, and a
  world with no files and nothing printed, where the empty name cannot be opened.\<close>

definition two_results :: "dict list" where
  "two_results =
     [[(''success'', PBool True),
       (''data'', PDict [(''current_username'', PStr ''alice''),
                         (''is_clean'', PBool True),
                         (''total_changes'', PInt 0),
                         (''history'', PList []),
                         (''insights'', PList [])]),
       (''username'', PStr ''alice''),
       (''timestamp'', PStr ''2024-05-01T12:00:01'')],
      [(''username'', PStr ''@bob''),
       (''success'', PBool False),
       (''error'', PStr ''API returned status code 500: oops''),
       (''timestamp'', PStr ''2024-05-01T12:00:02'')]]"

definition no_files :: world where
  "no_files =
     \<lparr>files = Map.empty,
      stdout = [],
      open_raises =
        (\<lambda>name. if name = [] then
                   Some (Exc OSError (''[Errno 2] No such file or directory: '' @ quoted []))
                 else None),
      stdout_raises = (\<lambda>line. None)\<rparr>"


section \<open>Request and error mapping of the two POST methods\<close>

text \<open>
  C3. When the service answers the request with status 429, both
  \<open>check_username_history\<close> and \<open>analyze_profile\<close> raise a \<open>RateLimitError\<close> (each
  with its own message), hence not an \<open>APIError\<close>: the handlers of the \<^verbatim>\<open>try\<close> catch
  only the exceptions of \<^verbatim>\<open>requests\<close>.
\<close>

theorem status_429_RateLimitError:
  "(net env tr (post_request self ''/api/check-username-history'' (lstrip ''@'' username) timeout)
      = Inr r \<and> status_code r = 429
     \<longrightarrow> fst (check_username_history self env tr username timeout) =
         Inl (Exc RateLimitError
           ''Rate limit exceeded. Please wait before making another request.''))
   \<and> (net env tr (post_request self ''/api/analyze'' (lstrip ''@'' username) timeout)
      = Inr r \<and> status_code r = 429
     \<longrightarrow> fst (analyze_profile self env tr username timeout) =
         Inl (Exc RateLimitError ''Rate limit exceeded''))"
  by (simp add: check_username_history_def analyze_profile_def Let_def)

theorem status_429_RateLimitError_witness:
  "fst (check_username_history default_sdk (answering (respond 429 ''slow down'' (Inr PNone)))
          [] ''@alice'' 30) =
     Inl (Exc RateLimitError ''Rate limit exceeded. Please wait before making another request.'')
   \<and> fst (analyze_profile default_sdk (answering (respond 429 ''slow down'' (Inr PNone)))
          [] ''@alice'' 60) =
     Inl (Exc RateLimitError ''Rate limit exceeded'')"
  using
    status_429_RateLimitError [of "answering (respond 429 ''slow down'' (Inr PNone))" "[]"
      default_sdk "''@alice''" 30 "respond 429 ''slow down'' (Inr PNone)"]
    status_429_RateLimitError [of "answering (respond 429 ''slow down'' (Inr PNone))" "[]"
      default_sdk "''@alice''" 60 "respond 429 ''slow down'' (Inr PNone)"]
  by (simp add: answering_def respond_def)

text \<open>
  What the two methods raise when the service answers with a status that is neither 200
  nor 429: an \<open>APIError\<close> whose message contains the status code in decimal. The
  message of \<open>check_username_history\<close> goes on with the body text of the response;
  the message of \<open>analyze_profile\<close> ends after the status code.
\<close>

lemma other_status_messages:
  "(net env tr (post_request self ''/api/check-username-history'' (lstrip ''@'' username) timeout)
      = Inr r \<and> status_code r \<noteq> 200 \<and> status_code r \<noteq> 429
     \<longrightarrow> (\<exists>m. fst (check_username_history self env tr username timeout) = Inl (Exc APIError m)
            \<and> m = ''API returned status code '' @ str_int (status_code r) @ '': '' @ text r
            \<and> sublist (str_int (status_code r)) m \<and> sublist (text r) m))
   \<and> (net env tr (post_request self ''/api/analyze'' (lstrip ''@'' username) timeout)
      = Inr r \<and> status_code r \<noteq> 200 \<and> status_code r \<noteq> 429
     \<longrightarrow> (\<exists>m. fst (analyze_profile self env tr username timeout) = Inl (Exc APIError m)
            \<and> m = ''API returned status code '' @ str_int (status_code r)
            \<and> sublist (str_int (status_code r)) m))"
proof -
  have code_inside: "sublist (str_int (status_code r))
      (''API returned status code '' @ str_int (status_code r) @ '': '' @ text r)"
    by (rule sublist_appendI)
  have body_last: "sublist (text r)
      ((''API returned status code '' @ str_int (status_code r) @ '': '') @ text r)"
    by (rule sublist_append_leftI)
  have code_last: "sublist (str_int (status_code r))
      (''API returned status code '' @ str_int (status_code r))"
    by (rule sublist_append_leftI)
  show ?thesis
    using code_inside body_last code_last
    by (simp add: check_username_history_def analyze_profile_def Let_def)
qed

text \<open>
  C4. The claim wants the status code and the body text in the message of both methods.
  \<open>check_username_history\<close> does that (above). \<open>analyze_profile\<close> does not: it leaves
  out the body text that its sibling appends to the same error. On a 500 response with
  body \<open>boom\<close> it raises an \<open>APIError\<close> with the message
  \<open>API returned status code 500\<close>, which does not contain \<open>boom\<close>.
\<close>

theorem analyze_profile_omits_body:
  "fst (analyze_profile default_sdk (answering (respond 500 ''boom'' (Inr PNone)))
          [] ''alice'' 60) =
     Inl (Exc APIError ''API returned status code 500'')
   \<and> \<not> sublist ''boom'' ''API returned status code 500''"
proof -
  have s: "str_int 500 = ''500''" by code_simp
  have n: "\<not> sublist ''boom'' ''API returned status code 500''" by code_simp
  show ?thesis
    by (simp add: analyze_profile_def Let_def answering_def respond_def s n)
qed

subsection \<open>The username that is sent\<close>

lemma lstrip_at_decomp:
  "username =
     replicate (length (takeWhile (\<lambda>c. c = CHR ''@'') username)) (CHR ''@'') @
     lstrip ''@'' username"
proof -
  have "takeWhile (\<lambda>c. c = CHR ''@'') username =
      replicate (length (takeWhile (\<lambda>c. c = CHR ''@'') username)) (CHR ''@'')"
    by (induction username) auto
  moreover have "username =
      takeWhile (\<lambda>c. c = CHR ''@'') username @ dropWhile (\<lambda>c. c = CHR ''@'') username"
    by simp
  ultimately show ?thesis by (simp add: lstrip_def)
qed

lemma lstrip_at_no_lead: "\<not> prefix ''@'' (lstrip ''@'' username)"
  by (induction username) (auto simp: lstrip_def)

text \<open>
  C5, as the code has it. Both methods send, as the \<open>username\<close> of the JSON body, the
  username without all of its leading \<open>@\<close> characters: the username is some number
  \<open>k\<close> of \<open>@\<close> followed by what is sent, and what is sent does not start with \<open>@\<close>.
  So a username with no leading \<open>@\<close> is sent unchanged (\<open>k\<close> is 0 then).
\<close>

theorem sends_username_without_leading_ats:
  "\<exists>k sent. username = replicate k (CHR ''@'') @ sent \<and> \<not> prefix ''@'' sent
     \<and> snd (check_username_history self env tr username timeout) =
         tr @ [Sent (post_request self ''/api/check-username-history'' sent timeout)]
     \<and> snd (analyze_profile self env tr username timeout) =
         tr @ [Sent (post_request self ''/api/analyze'' sent timeout)]
     \<and> req_json (post_request self ''/api/check-username-history'' sent timeout) =
         Some (PDict [(''username'', PStr sent)])
     \<and> req_json (post_request self ''/api/analyze'' sent timeout) =
         Some (PDict [(''username'', PStr sent)])"
  apply (rule exI [of _ "length (takeWhile (\<lambda>c. c = CHR ''@'') username)"])
  apply (rule exI [of _ "lstrip ''@'' username"])
  using lstrip_at_decomp [of username] lstrip_at_no_lead [of username]
  by (simp add: check_username_history_def analyze_profile_def Let_def post_request_def)

text \<open>
  The claim as the specification states it (exactly one \<open>@\<close> goes) fails on a username
  with two: for \<open>@@alice\<close> both methods send \<open>alice\<close>, not \<open>@alice\<close>.
\<close>

theorem strips_every_leading_at_counterexample:
  "snd (check_username_history default_sdk (answering (respond 200 ''{}'' (Inr (PDict []))))
          [] ''@@alice'' 30) =
     [Sent (post_request default_sdk ''/api/check-username-history'' ''alice'' 30)]
   \<and> snd (analyze_profile default_sdk (answering (respond 200 ''{}'' (Inr (PDict []))))
          [] ''@@alice'' 60) =
     [Sent (post_request default_sdk ''/api/analyze'' ''alice'' 60)]
   \<and> ''alice'' \<noteq> tl ''@@alice''"
  by (simp add: check_username_history_def analyze_profile_def Let_def lstrip_def)

subsection \<open>Timeouts\<close>




section \<open>Rate limit status\<close>

text \<open>
  C7. \<open>get_rate_limit_status\<close> always returns a value and never raises. On a 200
  response whose body decodes, it returns the decoded body. In every other case it returns
  a dictionary whose only key is \<open>error\<close>: on a 200 response whose body does not decode
  and on an exception of the request, with the text of the exception; on any other status,
  with a fixed text.
\<close>

theorem get_rate_limit_status_never_raises:
  "(\<exists>v. fst (get_rate_limit_status self env tr) = Inr v)
   \<and> (net env tr (rate_limit_request self) = Inr r \<and> status_code r = 200 \<and> json r = Inr body
        \<longrightarrow> fst (get_rate_limit_status self env tr) = Inr body)
   \<and> (net env tr (rate_limit_request self) = Inr r \<and> status_code r = 200 \<and> json r = Inl e
        \<longrightarrow> fst (get_rate_limit_status self env tr) = Inr (PDict [(''error'', PStr (msg e))]))
   \<and> (net env tr (rate_limit_request self) = Inr r \<and> status_code r \<noteq> 200
        \<longrightarrow> fst (get_rate_limit_status self env tr) =
              Inr (PDict [(''error'', PStr ''Failed to get rate limit status'')]))
   \<and> (net env tr (rate_limit_request self) = Inl e
        \<longrightarrow> fst (get_rate_limit_status self env tr) = Inr (PDict [(''error'', PStr (msg e))]))"
  by (auto simp: get_rate_limit_status_def Let_def split: sum.splits)

theorem get_rate_limit_status_never_raises_witness:
  "fst (get_rate_limit_status default_sdk
          (answering (respond 200 ''{..}'' (Inr (PDict [(''remaining'', PInt 5)])))) []) =
     Inr (PDict [(''remaining'', PInt 5)])
   \<and> fst (get_rate_limit_status default_sdk
          (answering (respond 200 ''<html>'' (Inl (Exc RequestException ''Expecting value'')))) []) =
     Inr (PDict [(''error'', PStr ''Expecting value'')])
   \<and> fst (get_rate_limit_status default_sdk (answering (respond 503 ''down'' (Inr PNone))) []) =
     Inr (PDict [(''error'', PStr ''Failed to get rate limit status'')])
   \<and> fst (get_rate_limit_status default_sdk (failing (Exc OtherException ''no route to host'')) []) =
     Inr (PDict [(''error'', PStr ''no route to host'')])"
  using
    get_rate_limit_status_never_raises [of default_sdk
      "answering (respond 200 ''{..}'' (Inr (PDict [(''remaining'', PInt 5)])))" "[]"
      "respond 200 ''{..}'' (Inr (PDict [(''remaining'', PInt 5)]))"
      "PDict [(''remaining'', PInt 5)]"]
    get_rate_limit_status_never_raises [of default_sdk
      "answering (respond 200 ''<html>'' (Inl (Exc RequestException ''Expecting value'')))" "[]"
      "respond 200 ''<html>'' (Inl (Exc RequestException ''Expecting value''))" _
      "Exc RequestException ''Expecting value''"]
    get_rate_limit_status_never_raises [of default_sdk
      "answering (respond 503 ''down'' (Inr PNone))" "[]" "respond 503 ''down'' (Inr PNone)"]
    get_rate_limit_status_never_raises [of default_sdk
      "failing (Exc OtherException ''no route to host'')" "[]" _ _
      "Exc OtherException ''no route to host''"]
  by (simp add: answering_def failing_def respond_def)


section \<open>Batch checking\<close>

lemma checked_entry_trace:
  "snd (checked_entry self env tr username) =
     tr @ [Sent (post_request self ''/api/check-username-history'' (lstrip ''@'' username) 30)]"
  by (simp add: checked_entry_def check_username_history_def Let_def split: prod.splits)

lemma dict_get_update_same: "dict_get (AList.update k v d) k dflt = v"
  by (simp add: dict_get_def update_conv')

lemma dict_get_update_other: "k' \<noteq> k \<Longrightarrow> dict_get (AList.update k v d) k' dflt = dict_get d k' dflt"
  by (simp add: dict_get_def update_conv')

lemma setitem_username:
  "setitem result ''username'' v = Inr d \<Longrightarrow> dict_get d ''username'' dflt = v"
  by (cases result) (auto simp: dict_get_update_same)

lemma failure_record_username: "dict_get (failure_record username e ts) ''username'' dflt = PStr username"
  by (simp add: failure_record_def dict_get_def)

lemma checked_entry_username:
  "dict_get (fst (checked_entry self env tr username)) ''username'' PNone = PStr username"
  by (auto simp: checked_entry_def Let_def failure_record_username dict_get_update_other
        setitem_username
      split: prod.splits sum.splits)

lemma checked_entry_failure:
  "fst (check_username_history self env tr username 30) = Inl e \<Longrightarrow>
   fst (checked_entry self env tr username) =
     failure_record username e
       (now env (tr @ [Sent (post_request self ''/api/check-username-history'' (lstrip ''@'' username) 30)]))"
  by (auto simp: checked_entry_def check_username_history_def Let_def split: prod.splits sum.splits)

lemma batch_iteration_eq:
  assumes quiet: "\<And>tr' i u. notify_raises env cb tr' i n u = None"
    and rested: "\<And>tr'. time_sleep env tr' delay = None"
  shows "batch_iteration self env delay cb n (results, tr) (i, username) =
     (Inr (results @ [fst (checked_entry self env (tr @ notify cb i n username) username)]),
      tr @ notify cb i n username @
        [Sent (post_request self ''/api/check-username-history'' (lstrip ''@'' username) 30)] @
        (if i + 1 < n then [Slept delay] else []))"
proof -
  have c: "(int i < int n - 1) = (i + 1 < n)" by auto
  show ?thesis
    using checked_entry_trace [of self env "tr @ notify cb i n username" username]
    by (auto simp: batch_iteration_def Let_def c quiet rested split: prod.splits)
qed

lemma batch_iteration_raises:
  "fst (batch_iteration self env delay cb n st iu) = Inl e \<Longrightarrow>
   (\<exists>tr' i u. notify_raises env cb tr' i n u = Some e) \<or>
   (\<exists>tr'. time_sleep env tr' delay = Some e)"
  by (auto simp: batch_iteration_def Let_def split: prod.splits option.splits if_splits)

lemma batch_loop_raises:
  "fst (batch_loop self env delay cb n xs st) = Inl e \<Longrightarrow>
   (\<exists>tr' i u. notify_raises env cb tr' i n u = Some e) \<or>
   (\<exists>tr'. time_sleep env tr' delay = Some e)"
proof (induction xs arbitrary: st)
  case Nil
  then show ?case by simp
next
  case (Cons iu rest)
  show ?case
  proof (cases "batch_iteration self env delay cb n st iu")
    case (Pair r t)
    show ?thesis
    proof (cases r)
      case (Inl e')
      with Pair Cons.prems have "fst (batch_iteration self env delay cb n st iu) = Inl e"
        by simp
      then show ?thesis by (rule batch_iteration_raises)
    next
      case (Inr results)
      with Pair Cons.prems have "fst (batch_loop self env delay cb n rest (results, t)) = Inl e"
        by simp
      then show ?thesis by (rule Cons.IH)
    qed
  qed
qed

lemma batch_loop_append:
  "batch_loop self env delay cb n (xs @ ys) st =
     (case batch_loop self env delay cb n xs st of
        (Inl e, t) \<Rightarrow> (Inl e, t)
      | (Inr results, t) \<Rightarrow> batch_loop self env delay cb n ys (results, t))"
  by (induction xs arbitrary: st) (auto split: prod.splits sum.splits)

lemma batch_loop_run:
  assumes quiet: "\<And>tr' i u. notify_raises env cb tr' i n u = None"
    and rested: "\<And>tr'. time_sleep env tr' delay = None"
  shows "\<exists>more. batch_loop self env delay cb n (List.enumerate k us) (rs, tr) =
       (Inr (rs @ more),
        tr @ concat (map (\<lambda>(i, u). notify cb i n u @
          [Sent (post_request self ''/api/check-username-history'' (lstrip ''@'' u) 30)] @
          (if i + 1 < n then [Slept delay] else [])) (List.enumerate k us)))
     \<and> length more = length us
     \<and> map (\<lambda>r. dict_get r ''username'' PNone) more = map PStr us"
proof (induction us arbitrary: k rs tr)
  case Nil
  show ?case by simp
next
  case (Cons u us)
  let ?entry = "fst (checked_entry self env (tr @ notify cb k n u) u)"
  let ?t = "tr @ notify cb k n u @
        [Sent (post_request self ''/api/check-username-history'' (lstrip ''@'' u) 30)] @
        (if k + 1 < n then [Slept delay] else [])"
  from Cons.IH [of "Suc k" "rs @ [?entry]" ?t] obtain more where
    run: "batch_loop self env delay cb n (List.enumerate (Suc k) us) (rs @ [?entry], ?t) =
       (Inr ((rs @ [?entry]) @ more),
        ?t @ concat (map (\<lambda>(i, u). notify cb i n u @
          [Sent (post_request self ''/api/check-username-history'' (lstrip ''@'' u) 30)] @
          (if i + 1 < n then [Slept delay] else [])) (List.enumerate (Suc k) us)))"
    and len: "length more = length us"
    and names: "map (\<lambda>r. dict_get r ''username'' PNone) more = map PStr us"
    by auto
  show ?case
    apply (rule exI [of _ "?entry # more"])
    using run len names
    by (simp add: batch_iteration_eq [OF quiet rested] checked_entry_username)
qed

lemma notify_quiet: "filter (\<lambda>e. is_Sent e \<or> is_Slept e) (notify cb i n u) = []"
  by (simp add: notify_def split: option.splits)

lemma notify_no_sleep: "filter is_Slept (notify cb i n u) = []"
  by (simp add: notify_def split: option.splits)

lemma skeleton:
  "filter (\<lambda>e. is_Sent e \<or> is_Slept e)
     (concat (map (\<lambda>(i, u). notify cb i n u @
        [Sent (post_request self ''/api/check-username-history'' (lstrip ''@'' u) 30)] @
        (if i + 1 < n then [Slept delay] else [])) (List.enumerate k us))) =
   concat (map (\<lambda>(i, u).
        Sent (post_request self ''/api/check-username-history'' (lstrip ''@'' u) 30) #
        (if i + 1 < n then [Slept delay] else [])) (List.enumerate k us))"
  by (induction us arbitrary: k) (simp_all add: notify_quiet)

lemma sleeps_count:
  "length (filter is_Slept
     (concat (map (\<lambda>(i, u). notify cb i (k + length us) u @
        [Sent (post_request self ''/api/check-username-history'' (lstrip ''@'' u) 30)] @
        (if i + 1 < k + length us then [Slept delay] else [])) (List.enumerate k us)))) =
   length us - 1"
proof (induction us arbitrary: k)
  case Nil
  then show ?case by simp
next
  case (Cons u us)
  have "length (filter is_Slept
     (concat (map (\<lambda>(i, u). notify cb i (Suc k + length us) u @
        [Sent (post_request self ''/api/check-username-history'' (lstrip ''@'' u) 30)] @
        (if i + 1 < Suc k + length us then [Slept delay] else [])) (List.enumerate (Suc k) us)))) =
   length us - 1"
    by (rule Cons.IH)
  then show ?case
    by (cases us) (simp_all add: notify_no_sleep)
qed

lemma last_concat_map:
  "xs \<noteq> [] \<Longrightarrow> f (last xs) \<noteq> [] \<Longrightarrow> last (concat (map f xs)) = last (f (last xs))"
proof (induction xs)
  case Nil
  then show ?case by simp
next
  case (Cons x xs)
  show ?case
  proof (cases "xs = []")
    case True
    then show ?thesis by simp
  next
    case False
    with Cons have ih: "last (concat (map f xs)) = last (f (last xs))" and ne: "f (last xs) \<noteq> []"
      by simp_all
    have "last xs \<in> set xs" using False by simp
    with ne have "concat (map f xs) \<noteq> []" by auto
    then have "last (concat (map f (x # xs))) = last (concat (map f xs))"
      by simp
    with ih False show ?thesis by simp
  qed
qed

lemma last_enumerate:
  "us \<noteq> [] \<Longrightarrow> last (List.enumerate k us) = (k + length us - 1, last us)"
  by (simp add: enumerate_eq_zip last_zip)

lemma ends_with_request:
  "us \<noteq> [] \<Longrightarrow>
   is_Sent (last
     (concat (map (\<lambda>(i, u). notify cb i (k + length us) u @
        [Sent (post_request self ''/api/check-username-history'' (lstrip ''@'' u) 30)] @
        (if i + 1 < k + length us then [Slept delay] else [])) (List.enumerate k us))))"
proof -
  assume ne: "us \<noteq> []"
  then have en: "List.enumerate k us \<noteq> []" by (cases us) simp_all
  have pos: "0 < length us" using ne by simp
  show ?thesis
    by (subst last_concat_map [OF en]) (use pos in \<open>simp_all add: last_enumerate [OF ne]\<close>)
qed

lemma decimals:
  "str_nat 1 = ''1''" "str_nat 2 = ''2''" "str_int 500 = ''500''"
  "str_nat (Suc 0) = ''1''" "str_nat (Suc (Suc 0)) = ''2''"
  by code_simp+

lemma two_answers_run:
  "batch_check default_sdk (scripted two_answers) [] [''alice'', ''@bob''] 2 None =
   (Inr [[(''success'', PBool True),
          (''data'', PDict [(''current_username'', PStr ''alice''),
                            (''is_clean'', PBool True),
                            (''total_changes'', PInt 0),
                            (''history'', PList []),
                            (''insights'', PList [])]),
          (''username'', PStr ''alice''),
          (''timestamp'', PStr ''2024-05-01T12:00:01'')],
         [(''username'', PStr ''@bob''),
          (''success'', PBool False),
          (''error'', PStr ''API returned status code 500: oops''),
          (''timestamp'', PStr ''2024-05-01T12:00:02'')]],
    [Printed ''Checking 1/2: @alice'',
     Sent (post_request default_sdk ''/api/check-username-history'' ''alice'' 30),
     Slept 2,
     Printed ''Checking 2/2: @@bob'',
     Sent (post_request default_sdk ''/api/check-username-history'' ''bob'' 30)])"
  by (simp add: batch_check_def batch_iteration_def checked_entry_def
        check_username_history_def Let_def scripted_def two_answers_def respond_def
        clean_body_def notify_def notify_raises_def progress_line_def time_sleep_def
        failure_record_def lstrip_def decimals)

lemma scripted_quiet: "notify_raises (scripted script) None tr i n u = None"
  by (simp add: notify_raises_def scripted_def)

lemma scripted_rested: "time_sleep (scripted script) tr 2 = None"
  by (simp add: time_sleep_def scripted_def)

text \<open>
  C1, as the code has it. Let the progress notification (the callback, or \<^verbatim>\<open>print\<close>)
  and the sleep of the delay return normally whenever they are called; for the sleep this
  needs a delay that is not negative. Then for every list of \<open>N\<close> usernames
  \<open>batch_check\<close> returns, and returns exactly \<open>N\<close> results; the \<open>i\<close>-th result carries
  the \<open>i\<close>-th username of the input, so they are in input order. Of the events it adds,
  the requests and sleeps are: one request per username, in order, each but the last
  followed by one sleep of the delay. So it sleeps \<open>N - 1\<close> times (not at all for \<open>N\<close>
  0 or 1, where the truncated difference is 0), and when the list is not empty the last
  event is the last request, not a sleep.
\<close>

theorem batch_check_results_and_sleeps:
  assumes quiet:
      "\<And>tr' i u. notify_raises env progress_callback tr' i (length usernames) u = None"
    and rested: "\<And>tr'. time_sleep env tr' delay = None"
  shows "\<exists>results new.
     batch_check self env tr usernames delay progress_callback = (Inr results, tr @ new)
     \<and> length results = length usernames
     \<and> map (\<lambda>r. dict_get r ''username'' PNone) results = map PStr usernames
     \<and> filter (\<lambda>e. is_Sent e \<or> is_Slept e) new =
         concat (map (\<lambda>(i, u).
           Sent (post_request self ''/api/check-username-history'' (lstrip ''@'' u) 30) #
           (if i + 1 < length usernames then [Slept delay] else []))
           (List.enumerate 0 usernames))
     \<and> length (filter is_Slept new) = length usernames - 1
     \<and> (usernames \<noteq> [] \<longrightarrow> is_Sent (last new))"
proof -
  let ?n = "length usernames"
  let ?new = "concat (map (\<lambda>(i, u). notify progress_callback i ?n u @
        [Sent (post_request self ''/api/check-username-history'' (lstrip ''@'' u) 30)] @
        (if i + 1 < ?n then [Slept delay] else [])) (List.enumerate 0 usernames))"
  from batch_loop_run [OF quiet rested, of self 0 usernames "[]" tr] obtain results where
    run: "batch_loop self env delay progress_callback ?n (List.enumerate 0 usernames) ([], tr) =
            (Inr ([] @ results), tr @ ?new)"
    and len: "length results = ?n"
    and names: "map (\<lambda>r. dict_get r ''username'' PNone) results = map PStr usernames"
    by auto
  have skel: "filter (\<lambda>e. is_Sent e \<or> is_Slept e) ?new =
         concat (map (\<lambda>(i, u).
           Sent (post_request self ''/api/check-username-history'' (lstrip ''@'' u) 30) #
           (if i + 1 < ?n then [Slept delay] else []))
           (List.enumerate 0 usernames))"
    by (rule skeleton)
  have cnt: "length (filter is_Slept ?new) = ?n - 1"
    using sleeps_count [of progress_callback 0 usernames self delay] by simp
  have lst: "usernames \<noteq> [] \<longrightarrow> is_Sent (last ?new)"
    using ends_with_request [of usernames progress_callback 0 self delay] by simp
  show ?thesis
    apply (rule exI [of _ results])
    apply (rule exI [of _ ?new])
    using run len names skel cnt lst by (simp add: batch_check_def)
qed

theorem batch_check_results_and_sleeps_witness:
  "\<exists>results new.
     batch_check default_sdk (scripted two_answers) [] [''alice'', ''@bob''] 2 None =
       (Inr results, new)
     \<and> new = [Printed ''Checking 1/2: @alice'',
              Sent (post_request default_sdk ''/api/check-username-history'' ''alice'' 30),
              Slept 2,
              Printed ''Checking 2/2: @@bob'',
              Sent (post_request default_sdk ''/api/check-username-history'' ''bob'' 30)]
     \<and> length results = 2
     \<and> map (\<lambda>r. dict_get r ''username'' PNone) results = [PStr ''alice'', PStr ''@bob'']
     \<and> length (filter is_Slept new) = 1
     \<and> is_Sent (last new)"
proof -
  from batch_check_results_and_sleeps
         [of "scripted two_answers" None "[''alice'', ''@bob'']" 2 default_sdk "[]",
          OF scripted_quiet scripted_rested]
  obtain results new where
    run: "batch_check default_sdk (scripted two_answers) [] [''alice'', ''@bob''] 2 None =
            (Inr results, [] @ new)"
    and len: "length results = length [''alice'', ''@bob'']"
    and names: "map (\<lambda>r. dict_get r ''username'' PNone) results = map PStr [''alice'', ''@bob'']"
    and sleeps: "length (filter is_Slept new) = length [''alice'', ''@bob''] - 1"
    and final: "[''alice'', ''@bob''] \<noteq> [] \<longrightarrow> is_Sent (last new)"
    by auto
  from run have new: "new = [Printed ''Checking 1/2: @alice'',
              Sent (post_request default_sdk ''/api/check-username-history'' ''alice'' 30),
              Slept 2,
              Printed ''Checking 2/2: @@bob'',
              Sent (post_request default_sdk ''/api/check-username-history'' ''bob'' 30)]"
    by (simp add: two_answers_run)
  show ?thesis
    apply (rule exI [of _ results])
    apply (rule exI [of _ new])
    using run len names sleeps final new by simp
qed

text \<open>
  The claim as the specification states it, for every call, fails when the sleep raises:
  with a delay of -1 second \<^verbatim>\<open>time.sleep\<close> raises a \<open>ValueError\<close> after the first
  check, outside the \<^verbatim>\<open>try\<close>, and \<open>batch_check\<close> returns no results for the two
  usernames.
\<close>

theorem batch_check_negative_delay_counterexample:
  "batch_check default_sdk (scripted two_answers) [] [''alice'', ''@bob''] (- 1) None =
     (Inl (Exc ValueError ''sleep length must be non-negative''),
      [Printed ''Checking 1/2: @alice'',
       Sent (post_request default_sdk ''/api/check-username-history'' ''alice'' 30)])"
  by (simp add: batch_check_def batch_iteration_def checked_entry_def
        check_username_history_def Let_def scripted_def two_answers_def respond_def
        clean_body_def notify_def notify_raises_def progress_line_def time_sleep_def
        failure_record_def lstrip_def decimals)


lemma enumerate_parts:
  assumes i: "i < length us"
  shows "List.enumerate 0 us =
      List.enumerate 0 (take i us) @ (i, us ! i) # List.enumerate (Suc i) (drop (Suc i) us)"
    and "take i (List.enumerate 0 us) = List.enumerate 0 (take i us)"
proof -
  have "us = take i us @ us ! i # drop (Suc i) us"
    using i by (rule id_take_nth_drop)
  then have "List.enumerate 0 us = List.enumerate 0 (take i us @ us ! i # drop (Suc i) us)"
    by (rule arg_cong)
  also have "\<dots> = List.enumerate 0 (take i us) @
      List.enumerate (0 + length (take i us)) (us ! i # drop (Suc i) us)"
    by (rule enumerate_append_eq)
  also have "\<dots> = List.enumerate 0 (take i us) @
      (i, us ! i) # List.enumerate (Suc i) (drop (Suc i) us)"
    using i by simp
  finally show parts: "List.enumerate 0 us =
      List.enumerate 0 (take i us) @ (i, us ! i) # List.enumerate (Suc i) (drop (Suc i) us)" .
  have "take i (List.enumerate 0 (take i us) @
      (i, us ! i) # List.enumerate (Suc i) (drop (Suc i) us)) = List.enumerate 0 (take i us)"
    using i by simp
  then show "take i (List.enumerate 0 us) = List.enumerate 0 (take i us)"
    by (simp only: parts [symmetric])
qed

lemma batch_loop_entry:
  assumes quiet: "\<And>tr' i u. notify_raises env cb tr' i n u = None"
    and rested: "\<And>tr'. time_sleep env tr' delay = None"
    and i: "i < length us"
    and before: "batch_loop self env delay cb n (take i (List.enumerate 0 us)) ([], tr) =
                   (Inr done, tr_i)"
  shows "\<exists>results tr'.
      batch_loop self env delay cb n (List.enumerate 0 us) ([], tr) = (Inr results, tr')
      \<and> results ! i = fst (checked_entry self env (tr_i @ notify cb i n (us ! i)) (us ! i))"
proof -
  let ?loop = "batch_loop self env delay cb n"
  let ?entry = "fst (checked_entry self env (tr_i @ notify cb i n (us ! i)) (us ! i))"
  let ?t = "tr_i @ notify cb i n (us ! i) @
        [Sent (post_request self ''/api/check-username-history'' (lstrip ''@'' (us ! i)) 30)] @
        (if i + 1 < n then [Slept delay] else [])"
  from batch_loop_run [OF quiet rested, of self 0 "take i us" "[]" tr] before i
  have len: "length done = i"
    by (auto simp: enumerate_parts(2) [OF i])
  from batch_loop_run [OF quiet rested, of self "Suc i" "drop (Suc i) us" "done @ [?entry]" ?t]
  obtain more where
    rest: "?loop (List.enumerate (Suc i) (drop (Suc i) us)) (done @ [?entry], ?t) =
       (Inr ((done @ [?entry]) @ more),
        ?t @ concat (map (\<lambda>(i, u). notify cb i n u @
          [Sent (post_request self ''/api/check-username-history'' (lstrip ''@'' u) 30)] @
          (if i + 1 < n then [Slept delay] else []))
          (List.enumerate (Suc i) (drop (Suc i) us))))"
    by auto
  have "?loop (List.enumerate 0 us) ([], tr) =
      ?loop (List.enumerate 0 (take i us) @
        (i, us ! i) # List.enumerate (Suc i) (drop (Suc i) us)) ([], tr)"
    by (simp only: enumerate_parts(1) [OF i, symmetric])
  also have "\<dots> = ?loop ((i, us ! i) # List.enumerate (Suc i) (drop (Suc i) us)) (done, tr_i)"
    using before by (simp add: batch_loop_append enumerate_parts(2) [OF i])
  also have "\<dots> = ?loop (List.enumerate (Suc i) (drop (Suc i) us)) (done @ [?entry], ?t)"
    by (simp add: batch_iteration_eq [OF quiet rested])
  finally have whole: "?loop (List.enumerate 0 us) ([], tr) =
       (Inr ((done @ [?entry]) @ more),
        ?t @ concat (map (\<lambda>(i, u). notify cb i n u @
          [Sent (post_request self ''/api/check-username-history'' (lstrip ''@'' u) 30)] @
          (if i + 1 < n then [Slept delay] else []))
          (List.enumerate (Suc i) (drop (Suc i) us))))"
    by (simp only: rest)
  have "((done @ [?entry]) @ more) ! i = ?entry"
    using len by (simp add: nth_append)
  with whole show ?thesis by blast
qed

lemma sent_count:
  "length (filter is_Sent (concat (map (\<lambda>(i, u). notify cb i n u @
        [Sent (post_request self ''/api/check-username-history'' (lstrip ''@'' u) 30)] @
        (if i + 1 < n then [Slept delay] else [])) (List.enumerate k us)))) = length us"
  by (induction us arbitrary: k) (simp_all add: notify_def split: option.splits)

text \<open>
  C2, as the code has it. Whatever \<open>batch_check\<close> raises was raised by the progress
  notification or by the sleep, which stand outside the \<^verbatim>\<open>try\<close>: an error of a
  per-item check never leaves it. Now let the notification and the sleep return normally
  whenever they are called. Take a position \<open>i\<close> of the list, the results and events
  \<open>(done, tr_i)\<close> that the loop has reached before pass \<open>i\<close>, and let the check of the
  \<open>i\<close>-th username there raise \<open>e\<close>. Then \<open>batch_check\<close> returns, with one result per
  username and one request sent per username, so the loop went on through the rest of
  the list; and the \<open>i\<close>-th result is the record with the requested username,
  \<open>success\<close> false, \<open>error\<close> the text of \<open>e\<close>, and the timestamp taken after the check.
\<close>

theorem batch_check_records_failure:
  "(fst (batch_check self env tr usernames delay progress_callback) = Inl raised \<longrightarrow>
      (\<exists>tr' i u. notify_raises env progress_callback tr' i (length usernames) u = Some raised) \<or>
      (\<exists>tr'. time_sleep env tr' delay = Some raised))
   \<and> ((\<forall>tr' i u. notify_raises env progress_callback tr' i (length usernames) u = None)
      \<and> (\<forall>tr'. time_sleep env tr' delay = None)
      \<and> i < length usernames
      \<and> batch_loop self env delay progress_callback (length usernames)
           (take i (List.enumerate 0 usernames)) ([], tr) = (Inr done, tr_i)
      \<and> fst (check_username_history self env
           (tr_i @ notify progress_callback i (length usernames) (usernames ! i))
           (usernames ! i) 30) = Inl e
     \<longrightarrow> (\<exists>results tr'.
           batch_check self env tr usernames delay progress_callback = (Inr results, tr')
           \<and> length results = length usernames
           \<and> length (filter is_Sent tr') = length (filter is_Sent tr) + length usernames
           \<and> results ! i =
               [(''username'', PStr (usernames ! i)),
                (''success'', PBool False),
                (''error'', PStr (msg e)),
                (''timestamp'', PStr (now env
                   (tr_i @ notify progress_callback i (length usernames) (usernames ! i) @
                    [Sent (post_request self ''/api/check-username-history''
                       (lstrip ''@'' (usernames ! i)) 30)])))]))"
proof (rule conjI)
  show "fst (batch_check self env tr usernames delay progress_callback) = Inl raised \<longrightarrow>
      (\<exists>tr' i u. notify_raises env progress_callback tr' i (length usernames) u = Some raised) \<or>
      (\<exists>tr'. time_sleep env tr' delay = Some raised)"
    using batch_loop_raises
      [of self env delay progress_callback "length usernames" "List.enumerate 0 usernames"
          "([], tr)" raised]
    by (simp add: batch_check_def)
next
  let ?n = "length usernames"
  show "(\<forall>tr' i u. notify_raises env progress_callback tr' i ?n u = None)
      \<and> (\<forall>tr'. time_sleep env tr' delay = None)
      \<and> i < ?n
      \<and> batch_loop self env delay progress_callback ?n
           (take i (List.enumerate 0 usernames)) ([], tr) = (Inr done, tr_i)
      \<and> fst (check_username_history self env
           (tr_i @ notify progress_callback i ?n (usernames ! i))
           (usernames ! i) 30) = Inl e
     \<longrightarrow> (\<exists>results tr'.
           batch_check self env tr usernames delay progress_callback = (Inr results, tr')
           \<and> length results = ?n
           \<and> length (filter is_Sent tr') = length (filter is_Sent tr) + ?n
           \<and> results ! i =
               [(''username'', PStr (usernames ! i)),
                (''success'', PBool False),
                (''error'', PStr (msg e)),
                (''timestamp'', PStr (now env
                   (tr_i @ notify progress_callback i ?n (usernames ! i) @
                    [Sent (post_request self ''/api/check-username-history''
                       (lstrip ''@'' (usernames ! i)) 30)])))])"
  proof
    assume h: "(\<forall>tr' i u. notify_raises env progress_callback tr' i ?n u = None)
      \<and> (\<forall>tr'. time_sleep env tr' delay = None)
      \<and> i < ?n
      \<and> batch_loop self env delay progress_callback ?n
           (take i (List.enumerate 0 usernames)) ([], tr) = (Inr done, tr_i)
      \<and> fst (check_username_history self env
           (tr_i @ notify progress_callback i ?n (usernames ! i))
           (usernames ! i) 30) = Inl e"
    then have quiet: "\<And>tr' i u. notify_raises env progress_callback tr' i ?n u = None"
      and rested: "\<And>tr'. time_sleep env tr' delay = None"
      and i: "i < ?n"
      and before: "batch_loop self env delay progress_callback ?n
           (take i (List.enumerate 0 usernames)) ([], tr) = (Inr done, tr_i)"
      and raised: "fst (check_username_history self env
           (tr_i @ notify progress_callback i ?n (usernames ! i))
           (usernames ! i) 30) = Inl e"
      by simp_all
    let ?new = "concat (map (\<lambda>(i, u). notify progress_callback i ?n u @
        [Sent (post_request self ''/api/check-username-history'' (lstrip ''@'' u) 30)] @
        (if i + 1 < ?n then [Slept delay] else [])) (List.enumerate 0 usernames))"
    from batch_loop_run [OF quiet rested, of self 0 usernames "[]" tr] obtain results where
      run: "batch_loop self env delay progress_callback ?n (List.enumerate 0 usernames) ([], tr) =
              (Inr ([] @ results), tr @ ?new)"
      and len: "length results = ?n"
      by auto
    from batch_loop_entry [OF quiet rested i before] run
    have "results ! i =
        fst (checked_entry self env (tr_i @ notify progress_callback i ?n (usernames ! i))
               (usernames ! i))"
      by auto
    then have entry: "results ! i =
               [(''username'', PStr (usernames ! i)),
                (''success'', PBool False),
                (''error'', PStr (msg e)),
                (''timestamp'', PStr (now env
                   (tr_i @ notify progress_callback i ?n (usernames ! i) @
                    [Sent (post_request self ''/api/check-username-history''
                       (lstrip ''@'' (usernames ! i)) 30)])))]"
      by (simp add: checked_entry_failure [OF raised] failure_record_def)
    have sent: "length (filter is_Sent (tr @ ?new)) = length (filter is_Sent tr) + ?n"
      using sent_count [of progress_callback ?n self delay 0 usernames] by simp
    show "\<exists>results tr'.
           batch_check self env tr usernames delay progress_callback = (Inr results, tr')
           \<and> length results = ?n
           \<and> length (filter is_Sent tr') = length (filter is_Sent tr) + ?n
           \<and> results ! i =
               [(''username'', PStr (usernames ! i)),
                (''success'', PBool False),
                (''error'', PStr (msg e)),
                (''timestamp'', PStr (now env
                   (tr_i @ notify progress_callback i ?n (usernames ! i) @
                    [Sent (post_request self ''/api/check-username-history''
                       (lstrip ''@'' (usernames ! i)) 30)])))]"
      apply (rule exI [of _ results])
      apply (rule exI [of _ "tr @ ?new"])
      using run len sent entry by (simp add: batch_check_def)
  qed
qed

theorem batch_check_records_failure_witness:
  "\<exists>results tr'.
     batch_check default_sdk (scripted two_answers) [] [''alice'', ''@bob''] 2 None =
       (Inr results, tr')
     \<and> length results = 2
     \<and> length (filter is_Sent tr') = 2
     \<and> results ! 1 =
         [(''username'', PStr ''@bob''),
          (''success'', PBool False),
          (''error'', PStr ''API returned status code 500: oops''),
          (''timestamp'', PStr ''2024-05-01T12:00:02'')]"
proof -
  have quiet: "\<forall>tr' i u. notify_raises (scripted two_answers) None tr' i
      (length [''alice'', ''@bob'']) u = None"
    by (simp add: scripted_quiet)
  have rested: "\<forall>tr'. time_sleep (scripted two_answers) tr' 2 = None"
    by (simp add: scripted_rested)
  have i: "(1::nat) < length [''alice'', ''@bob'']" by simp
  have before:
    "batch_loop default_sdk (scripted two_answers) 2 None (length [''alice'', ''@bob''])
       (take 1 (List.enumerate 0 [''alice'', ''@bob''])) ([], []) =
     (Inr [[(''success'', PBool True),
        (''data'', PDict [(''current_username'', PStr ''alice''),
                          (''is_clean'', PBool True),
                          (''total_changes'', PInt 0),
                          (''history'', PList []),
                          (''insights'', PList [])]),
        (''username'', PStr ''alice''),
        (''timestamp'', PStr ''2024-05-01T12:00:01'')]],
      [Printed ''Checking 1/2: @alice'',
       Sent (post_request default_sdk ''/api/check-username-history'' ''alice'' 30),
       Slept 2])"
    by (simp add: batch_iteration_def checked_entry_def
        check_username_history_def Let_def scripted_def two_answers_def respond_def
        clean_body_def notify_def notify_raises_def progress_line_def time_sleep_def
        failure_record_def lstrip_def decimals)
  have raised:
    "fst (check_username_history default_sdk (scripted two_answers)
       ([Printed ''Checking 1/2: @alice'',
         Sent (post_request default_sdk ''/api/check-username-history'' ''alice'' 30),
         Slept 2] @
        notify None 1 (length [''alice'', ''@bob'']) ([''alice'', ''@bob''] ! 1))
       ([''alice'', ''@bob''] ! 1) 30) =
     Inl (Exc APIError ''API returned status code 500: oops'')"
    by (simp add: check_username_history_def Let_def scripted_def two_answers_def respond_def
        notify_def decimals)
  have clock: "now (scripted two_answers) tr =
      ''2024-05-01T12:00:0'' @ str_nat (length (filter is_Sent tr))" for tr
    by (simp add: scripted_def)
  from batch_check_records_failure
    [of default_sdk "scripted two_answers" "[]" "[''alice'', ''@bob'']" 2 None _ 1
        _ _ "Exc APIError ''API returned status code 500: oops''"]
    quiet rested i before raised
  obtain results tr' where
    run: "batch_check default_sdk (scripted two_answers) [] [''alice'', ''@bob''] 2 None =
            (Inr results, tr')"
    and len: "length results = length [''alice'', ''@bob'']"
    and sent: "length (filter is_Sent tr') =
            length (filter is_Sent ([] :: event list)) + length [''alice'', ''@bob'']"
    and entry: "results ! 1 =
         [(''username'', PStr ([''alice'', ''@bob''] ! 1)),
          (''success'', PBool False),
          (''error'', PStr (msg (Exc APIError ''API returned status code 500: oops''))),
          (''timestamp'', PStr (now (scripted two_answers)
             ([Printed ''Checking 1/2: @alice'',
               Sent (post_request default_sdk ''/api/check-username-history'' ''alice'' 30),
               Slept 2] @
              notify None 1 (length [''alice'', ''@bob'']) ([''alice'', ''@bob''] ! 1) @
              [Sent (post_request default_sdk ''/api/check-username-history''
                 (lstrip ''@'' ([''alice'', ''@bob''] ! 1)) 30)])))]"
    by blast
  show ?thesis
    apply (rule exI [of _ results])
    apply (rule exI [of _ tr'])
    using run len sent entry by (simp add: clock notify_def progress_line_def decimals)
qed

text \<open>
  The claim as the specification states it, for every call, fails when the sleep raises.
  Against a service that refuses every connection and with a delay of -1 second, the
  check of the first username fails and is recorded, then \<^verbatim>\<open>time.sleep\<close> raises a
  \<open>ValueError\<close> outside the \<^verbatim>\<open>try\<close>: the loop does not go on to the second
  username (one request is sent, not two) and \<open>batch_check\<close> raises.
\<close>

theorem batch_check_stops_after_failure_counterexample:
  "batch_check default_sdk (scripted []) [] [''alice'', ''bob''] (- 1) None =
     (Inl (Exc ValueError ''sleep length must be non-negative''),
      [Printed ''Checking 1/2: @alice'',
       Sent (post_request default_sdk ''/api/check-username-history'' ''alice'' 30)])
   \<and> fst (check_username_history default_sdk (scripted [])
        [Printed ''Checking 1/2: @alice''] ''alice'' 30) =
      Inl (Exc MoniBagsException ''Request failed: Connection refused'')"
  by (simp add: batch_check_def batch_iteration_def checked_entry_def
        check_username_history_def Let_def scripted_def
        notify_def notify_raises_def progress_line_def time_sleep_def
        failure_record_def lstrip_def decimals)


section \<open>Export and formatting\<close>

text \<open>
  C8. For every list of results, filename and world, a format other than \<open>json\<close> and
  \<open>csv\<close> makes \<open>export_results\<close> raise a \<open>ValueError\<close> that names the format, and
  leaves the world as it was: no file is created or changed (and nothing is printed).
\<close>

theorem export_results_unsupported_format:
  "format \<noteq> ''json'' \<Longrightarrow> format \<noteq> ''csv'' \<Longrightarrow>
   export_results results filename format w =
     (Inl (Exc ValueError (''Unsupported format: '' @ format)), w)"
  by (simp add: export_results_def)

theorem export_results_unsupported_format_witness:
  "export_results two_results ''out.xml'' ''xml'' no_files =
     (Inl (Exc ValueError ''Unsupported format: xml''), no_files)"
  using export_results_unsupported_format [of "''xml''" two_results "''out.xml''" no_files]
  by simp





lemma join_four: "join sep [a, b, c, d] = a @ sep @ b @ sep @ c @ sep @ d"
  by simp

text \<open>
  C10. For a result whose \<open>success\<close> is truthy and which has no \<open>data\<close> key,
  \<open>format_result\<close> returns (it does not raise): the data is the empty dictionary, and
  the string is the rule, \<open>Username: @unknown\<close>, the changes-detected status line and
  the rule again, so it contains both lines.
\<close>

theorem format_result_without_data:
  "truthy (dict_get result ''success'' PNone) \<Longrightarrow> map_of result ''data'' = None \<Longrightarrow>
   \<exists>out. format_result repr result = Inr out
     \<and> out = join newline
         [rule_line, ''Username: @unknown'', ''Status: CHANGES DETECTED '' @ warning_sign,
          rule_line]
     \<and> sublist ''Username: @unknown'' out
     \<and> sublist (''Status: CHANGES DETECTED '' @ warning_sign) out"
proof -
  assume ok: "truthy (dict_get result ''success'' PNone)" and nodata: "map_of result ''data'' = None"
  let ?out = "join newline
         [rule_line, ''Username: @unknown'', ''Status: CHANGES DETECTED '' @ warning_sign,
          rule_line]"
  have data: "dict_get result ''data'' (PDict []) = PDict []"
    using nodata by (simp add: dict_get_def)
  have none: "dict_get [] k d = d" for k d
    by (simp add: dict_get_def)
  have run: "format_result repr result = Inr ?out"
    using ok by (simp add: format_result_def Let_def data none)
  have "sublist ''Username: @unknown''
      ((rule_line @ newline) @ ''Username: @unknown'' @
       (newline @ (''Status: CHANGES DETECTED '' @ warning_sign) @ newline @ rule_line))"
    by (rule sublist_appendI)
  then have s1: "sublist ''Username: @unknown'' ?out"
    by (simp only: join_four append_assoc)
  have "sublist (''Status: CHANGES DETECTED '' @ warning_sign)
      ((rule_line @ newline @ ''Username: @unknown'' @ newline) @
       (''Status: CHANGES DETECTED '' @ warning_sign) @ (newline @ rule_line))"
    by (rule sublist_appendI)
  then have s2: "sublist (''Status: CHANGES DETECTED '' @ warning_sign) ?out"
    by (simp only: join_four append_assoc)
  from run s1 s2 show ?thesis by blast
qed

theorem format_result_without_data_witness:
  "format_result (\<lambda>v. ''?'') [(''success'', PBool True)] =
     Inr (rule_line @ newline @ ''Username: @unknown'' @ newline @
          ''Status: CHANGES DETECTED '' @ warning_sign @ newline @ rule_line)"
proof -
  have s: "truthy (dict_get [(''success'', PBool True)] ''success'' PNone)"
    by (simp add: dict_get_def)
  have d: "map_of [(''success'', PBool True)] ''data'' = None"
    by simp
  from format_result_without_data [OF s d, of "\<lambda>v. ''?''"] show ?thesis
    by auto
qed


end
